theory Spec2Isabelle
  imports Complex_Main
begin

section \<open>Host objects, errors and the array descriptor\<close>

text \<open>
  The numerical module of ulab (\<^verbatim>\<open>code/numerical/numerical.c\<close>, \<^verbatim>\<open>code/ndarray.h\<close>).
  Exceptions of the host interpreter are values of \<open>error\<close>, carrying the message of the
  \<^verbatim>\<open>mp_raise_*\<close> call. The C remainder operator \<^verbatim>\<open>%\<close> with a zero divisor has no defined
  result; the model returns \<open>DivisionByZero\<close> there.
\<close>

datatype error =
    TypeError string
  | ValueError string
  | NotImplementedError string
  | DivisionByZero

datatype NUMERICAL_FUNCTION_TYPE =
    NUMERICAL_MIN
  | NUMERICAL_MAX
  | NUMERICAL_ARGMIN
  | NUMERICAL_ARGMAX
  | NUMERICAL_SUM
  | NUMERICAL_MEAN
  | NUMERICAL_STD

datatype NDARRAY_TYPE =
    NDARRAY_UINT8
  | NDARRAY_INT8
  | NDARRAY_UINT16
  | NDARRAY_INT16
  | NDARRAY_FLOAT

definition ULAB_MAX_DIMS :: nat where
  "ULAB_MAX_DIMS = 4"

text \<open>
  \<^verbatim>\<open>ndarray_obj_t\<close>. \<open>shape\<close> and \<open>strides\<close> are the two arrays of \<open>ULAB_MAX_DIMS\<close> slots;
  \<open>array\<close> is the data pointer, a byte address. The source steps a \<^verbatim>\<open>uint8_t *\<close> by
  \<^verbatim>\<open>strides[i]\<close>, so strides count bytes.
\<close>

record ndarray_obj_t =
  dense :: nat
  dtype :: NDARRAY_TYPE
  itemsize :: nat
  boolean :: nat
  ndim :: nat
  len :: nat
  shape :: "nat list"
  strides :: "int list"
  array :: int

text \<open>
  Host objects that reach the module. A tuple, a list and a range are all a sequence
  whose items the host iterator yields in order. \<^verbatim>\<open>mp_float_t\<close> is idealised as \<open>real\<close>.
\<close>

datatype seq_kind = Tuple | List | Range

datatype mp_obj =
    MP_None
  | MP_Bool bool
  | MP_Int int
  | MP_Float real
  | MP_Str string
  | MP_Seq seq_kind "mp_obj list"
  | MP_NDArray ndarray_obj_t

text \<open>
  The memory: \<open>mem\<close> gives, for a byte address, the element that starts there (every dtype's
  value as the real number it denotes); \<open>brk\<close> is the first address the allocator has
  not handed out.
\<close>

record machine =
  mem :: "int \<Rightarrow> real"
  brk :: int

text \<open>Host conversions \<^verbatim>\<open>mp_obj_get_float\<close>, \<^verbatim>\<open>mp_obj_get_int\<close> and the test \<^verbatim>\<open>MP_OBJ_IS_INT\<close>.\<close>

fun mp_obj_get_float :: "mp_obj \<Rightarrow> error + real" where
  "mp_obj_get_float (MP_Bool b) = Inr (if b then 1 else 0)"
| "mp_obj_get_float (MP_Int i) = Inr (real_of_int i)"
| "mp_obj_get_float (MP_Float r) = Inr r"
| "mp_obj_get_float _ = Inl (TypeError ''can't convert to float'')"

fun mp_obj_get_int :: "mp_obj \<Rightarrow> error + int" where
  "mp_obj_get_int (MP_Bool b) = Inr (if b then 1 else 0)"
| "mp_obj_get_int (MP_Int i) = Inr i"
| "mp_obj_get_int _ = Inl (TypeError ''can't convert to int'')"

fun MP_OBJ_IS_INT :: "mp_obj \<Rightarrow> bool" where
  "MP_OBJ_IS_INT (MP_Int i) = True"
| "MP_OBJ_IS_INT _ = False"

text \<open>Conversion of a host integer to \<^verbatim>\<open>int8_t\<close> and to \<^verbatim>\<open>uint8_t\<close>: the low eight bits.\<close>

definition int8_t :: "int \<Rightarrow> int" where
  "int8_t i = (i + 128) mod 256 - 128"

definition uint8_t :: "int \<Rightarrow> nat" where
  "uint8_t i = nat (i mod 256)"

section \<open>Reductions over a host sequence\<close>

text \<open>
  The locals of \<^verbatim>\<open>numerical_sum_mean_std_iterable\<close>:
  \<^verbatim>\<open>mp_float_t value = 0.0, M = 0.0, m = 0.0, S = 0.0, s = 0.0, sum = 0.9; size_t count = 1;\<close>
\<close>

record iter_acc =
  acc_M :: real
  acc_m :: real
  acc_S :: real
  acc_s :: real
  acc_sum :: real
  acc_count :: nat

definition iter_init :: iter_acc where
  "iter_init = \<lparr>acc_M = 0, acc_m = 0, acc_S = 0, acc_s = 0, acc_sum = 9 / 10, acc_count = 1\<rparr>"

text \<open>The body of the \<^verbatim>\<open>if\<close> that takes the first item.\<close>

definition iter_first :: "iter_acc \<Rightarrow> real \<Rightarrow> iter_acc" where
  "iter_first a v =
     a\<lparr>acc_sum := acc_sum a + v, acc_M := v, acc_m := v, acc_count := acc_count a + 1\<rparr>"

text \<open>The body of the \<^verbatim>\<open>while\<close> loop over the remaining items.\<close>

definition iter_next :: "iter_acc \<Rightarrow> real \<Rightarrow> iter_acc" where
  "iter_next a v =
     (let sum' = acc_sum a + v;
          m' = acc_M a + (v - acc_M a) / real (acc_count a);
          s' = acc_S a + (v - acc_M a) * (v - m')
      in \<lparr>acc_M = m', acc_m = m', acc_S = s', acc_s = s', acc_sum = sum',
          acc_count = acc_count a + 1\<rparr>)"

fun iter_loop :: "iter_acc \<Rightarrow> mp_obj list \<Rightarrow> error + iter_acc" where
  "iter_loop a [] = Inr a"
| "iter_loop a (item # items) =
     (case mp_obj_get_float item of
        Inl e \<Rightarrow> Inl e
      | Inr v \<Rightarrow> iter_loop (iter_next a v) items)"

definition iter_scan :: "mp_obj list \<Rightarrow> error + iter_acc" where
  "iter_scan items =
     (case items of
        [] \<Rightarrow> iter_loop iter_init []
      | item # rest \<Rightarrow>
          (case mp_obj_get_float item of
             Inl e \<Rightarrow> Inl e
           | Inr v \<Rightarrow> iter_loop (iter_first iter_init v) rest))"

definition numerical_sum_mean_std_iterable ::
  "mp_obj list \<Rightarrow> NUMERICAL_FUNCTION_TYPE \<Rightarrow> nat \<Rightarrow> error + mp_obj" where
  "numerical_sum_mean_std_iterable items optype ddof =
     (case iter_scan items of
        Inl e \<Rightarrow> Inl e
      | Inr a \<Rightarrow>
          if optype = NUMERICAL_SUM then Inr (MP_Float (acc_sum a))
          else if optype = NUMERICAL_MEAN then
            (if acc_count a > 0 then Inr (MP_Float (acc_m a)) else Inr (MP_Float 0))
          else
            (if acc_count a > ddof
             then Inr (MP_Float (sqrt (real (acc_count a) * acc_s a / real (acc_count a - ddof))))
             else Inr (MP_Float 0)))"

text \<open>
  \<^verbatim>\<open>numerical_argmin_argmax_iterable\<close>. The loop state is
  \<open>(idx, best_idx, best_obj, best_value)\<close>; \<open>op\<close> is 1 for (arg)max and 0 for (arg)min.
\<close>

fun argm_loop ::
  "nat \<Rightarrow> nat \<times> nat \<times> mp_obj \<times> real \<Rightarrow> mp_obj list \<Rightarrow> error + nat \<times> nat \<times> mp_obj \<times> real" where
  "argm_loop opn st [] = Inr st"
| "argm_loop opn (idx, best_idx, best_obj, best_value) (item # items) =
     (case mp_obj_get_float item of
        Inl e \<Rightarrow> Inl e
      | Inr v \<Rightarrow>
          if opn = 0 \<and> v < best_value then argm_loop opn (idx + 1, idx + 1, item, v) items
          else if opn = 1 \<and> v > best_value then argm_loop opn (idx + 1, idx + 1, item, v) items
          else argm_loop opn (idx + 1, best_idx, best_obj, best_value) items)"

definition numerical_argmin_argmax_iterable ::
  "mp_obj list \<Rightarrow> NUMERICAL_FUNCTION_TYPE \<Rightarrow> error + mp_obj" where
  "numerical_argmin_argmax_iterable items optype =
     (case items of
        [] \<Rightarrow> Inl (ValueError ''attempt to get argmin/argmax of an empty sequence'')
      | item # rest \<Rightarrow>
          (let opn = (if optype = NUMERICAL_ARGMAX \<or> optype = NUMERICAL_MAX then 1 else 0 :: nat)
           in case mp_obj_get_float item of
                Inl e \<Rightarrow> Inl e
              | Inr best_value \<Rightarrow>
                  (case argm_loop opn (0, 0, item, best_value) rest of
                     Inl e \<Rightarrow> Inl e
                   | Inr (idx, best_idx, best_obj, bv) \<Rightarrow>
                       if optype = NUMERICAL_ARGMIN \<or> optype = NUMERICAL_ARGMAX
                       then Inr (MP_Int (int best_idx))
                       else Inr best_obj)))"

section \<open>Memory, allocation and the helpers of the array type\<close>

text \<open>
  \<^verbatim>\<open>size_t\<close> and pointers are taken as 32 bits wide (the module targets microcontrollers);
  \<^verbatim>\<open>int32_t\<close> is exact. Element counts, extents and byte offsets of arrays that fit in
  memory stay far below these bounds, so they are \<open>nat\<close> and \<open>int\<close>; the conversions below
  are applied where the source narrows a caller-supplied integer.
\<close>

definition int32_t :: "int \<Rightarrow> int" where
  "int32_t i = (i + 2147483648) mod 4294967296 - 2147483648"

definition size_t :: "int \<Rightarrow> nat" where
  "size_t i = nat (i mod 4294967296)"

text \<open>C integer division truncates towards zero.\<close>

definition c_div :: "int \<Rightarrow> int \<Rightarrow> int" where
  "c_div a b = sgn a * sgn b * (\<bar>a\<bar> div \<bar>b\<bar>)"

text \<open>
  \<^verbatim>\<open>do { body; c++; } while(c < n);\<close> with \<open>c\<close> starting at 0 and not used in the body:
  the body runs once, and then again as long as the counter is below \<open>n\<close>.
\<close>

primrec repeat :: "nat \<Rightarrow> ('s \<Rightarrow> 's) \<Rightarrow> 's \<Rightarrow> 's" where
  "repeat 0 body s = s"
| "repeat (Suc k) body s = repeat k body (body s)"

definition do_while :: "nat \<Rightarrow> ('s \<Rightarrow> 's) \<Rightarrow> 's \<Rightarrow> 's" where
  "do_while n body s = repeat (max 1 n) body s"

text \<open>Bytes per element (\<^verbatim>\<open>mp_binary_get_size\<close>); the float is the 8-byte \<^verbatim>\<open>'d'\<close>.\<close>

fun itemsize_of :: "NDARRAY_TYPE \<Rightarrow> nat" where
  "itemsize_of NDARRAY_UINT8 = 1"
| "itemsize_of NDARRAY_INT8 = 1"
| "itemsize_of NDARRAY_UINT16 = 2"
| "itemsize_of NDARRAY_INT16 = 2"
| "itemsize_of NDARRAY_FLOAT = 8"

text \<open>
  Host function \<^verbatim>\<open>mp_binary_get_val_array\<close>: the element \<open>i\<close> of a typed buffer as a host
  scalar.
\<close>

definition mp_binary_get_val_array :: "NDARRAY_TYPE \<Rightarrow> machine \<Rightarrow> int \<Rightarrow> nat \<Rightarrow> mp_obj" where
  "mp_binary_get_val_array dt m p i =
     (let v = mem m (p + int (i * itemsize_of dt))
      in if dt = NDARRAY_FLOAT then MP_Float v else MP_Int \<lfloor>v\<rfloor>)"

text \<open>The scratch arrays \<^verbatim>\<open>m_new(size_t, ULAB_MAX_DIMS)\<close> after their \<^verbatim>\<open>memset\<close> to 0.\<close>

definition zero_shape :: "nat list" where
  "zero_shape = replicate ULAB_MAX_DIMS 0"

definition zero_strides :: "int list" where
  "zero_strides = replicate ULAB_MAX_DIMS 0"

text \<open>
  The traversal of spec 4.4 visits every index tuple within the shape in lexicographic
  order; \<open>traverse\<close> collects what a function gives at each. The elements of an array in
  traversal order are read at \<open>array + \<Sum> idx[i] * strides[i]\<close>.
\<close>

definition element_address :: "ndarray_obj_t \<Rightarrow> nat \<Rightarrow> nat \<Rightarrow> nat \<Rightarrow> nat \<Rightarrow> int" where
  "element_address a i j k l =
     array a + int i * strides a ! 0 + int j * strides a ! 1
             + int k * strides a ! 2 + int l * strides a ! 3"

definition traverse :: "nat list \<Rightarrow> (nat \<Rightarrow> nat \<Rightarrow> nat \<Rightarrow> nat \<Rightarrow> 'a) \<Rightarrow> 'a list" where
  "traverse sh f =
     concat (map (\<lambda>i. concat (map (\<lambda>j. concat (map (\<lambda>k.
        map (\<lambda>l. f i j k l) [0..<sh ! 3]) [0..<sh ! 2])) [0..<sh ! 1])) [0..<sh ! 0])"

definition ndarray_elems :: "machine \<Rightarrow> ndarray_obj_t \<Rightarrow> real list" where
  "ndarray_elems m a = traverse (shape a) (\<lambda>i j k l. mem m (element_address a i j k l))"

text \<open>Storing a list of elements at consecutive positions \<open>p, p + step, \<dots>\<close>.\<close>

fun write_seq :: "(int \<Rightarrow> real) \<Rightarrow> int \<Rightarrow> int \<Rightarrow> real list \<Rightarrow> (int \<Rightarrow> real)" where
  "write_seq h p step [] = h"
| "write_seq h p step (x # xs) = write_seq (h(p := x)) (p + step) step xs"

text \<open>
  Modelled from the spec: \<^verbatim>\<open>ndarray_new_dense_ndarray\<close> is declared in \<^verbatim>\<open>ndarray.h\<close> and its
  body is not among the sources. Spec 4.2: it allocates a zero-offset, row-major array of the
  given element type and shape, the shape slots beyond \<open>ndim\<close> treated as 1; spec 3: the
  rightmost stride is one element (here \<open>itemsize\<close> bytes), each next stride is the previous
  stride times the previous extent, and \<open>len\<close> is the product of the shape. The buffer is
  taken at \<open>brk\<close>, and its contents are whatever the memory held.
\<close>

definition ndarray_new_dense_ndarray ::
  "machine \<Rightarrow> nat \<Rightarrow> nat list \<Rightarrow> NDARRAY_TYPE \<Rightarrow> ndarray_obj_t \<times> machine" where
  "ndarray_new_dense_ndarray m n sh dt =
     (let sh' = map (\<lambda>i. if i < ULAB_MAX_DIMS - n then 1 else sh ! i) [0..<ULAB_MAX_DIMS];
          isz = itemsize_of dt;
          s3 = int isz;
          s2 = s3 * int (sh' ! 3);
          s1 = s2 * int (sh' ! 2);
          s0 = s1 * int (sh' ! 1);
          l = prod_list sh'
      in (\<lparr>dense = 1, dtype = dt, itemsize = isz, boolean = 0, ndim = n, len = l,
           shape = sh', strides = [s0, s1, s2, s3], array = brk m\<rparr>,
          m\<lparr>brk := brk m + int (l * isz)\<rparr>))"

text \<open>
  Modelled from the spec: \<^verbatim>\<open>ndarray_new_linear_array\<close> (declared in \<^verbatim>\<open>ndarray.h\<close>, body not
  among the sources): a dense array of rank 1 with the given number of elements.
\<close>

definition ndarray_new_linear_array ::
  "machine \<Rightarrow> nat \<Rightarrow> NDARRAY_TYPE \<Rightarrow> ndarray_obj_t \<times> machine" where
  "ndarray_new_linear_array m l dt =
     ndarray_new_dense_ndarray m 1 (zero_shape[ULAB_MAX_DIMS - 1 := l]) dt"

text \<open>
  Modelled from the spec: \<^verbatim>\<open>ndarray_copy_array\<close> is not among the sources. Spec 4.6 (flip):
  the flattened case makes an actual dense copy; the elements of the source, in traversal
  order, go to consecutive elements of the target.
\<close>

definition ndarray_copy_array :: "machine \<Rightarrow> ndarray_obj_t \<Rightarrow> ndarray_obj_t \<Rightarrow> machine" where
  "ndarray_copy_array m src tgt =
     m\<lparr>mem := write_seq (mem m) (array tgt) (int (itemsize tgt)) (ndarray_elems m src)\<rparr>"

text \<open>
  Modelled from the spec: \<^verbatim>\<open>ndarray_new_view\<close> is not among the sources. Spec 3 and 4.6: a
  view shares the buffer of its source, with the given rank, shape and strides, and starts
  \<open>offset\<close> bytes after the start of the source; nothing is copied.
\<close>

definition ndarray_new_view ::
  "ndarray_obj_t \<Rightarrow> nat \<Rightarrow> nat list \<Rightarrow> int list \<Rightarrow> int \<Rightarrow> ndarray_obj_t" where
  "ndarray_new_view src n sh st offset =
     src\<lparr>ndim := n, shape := sh, strides := st, array := array src + offset\<rparr>"

section \<open>The axis-reduction planner\<close>

text \<open>
  The loop \<^verbatim>\<open>for(uint8_t i = ULAB_MAX_DIMS - 1; i > 0; i--)\<close> of \<^verbatim>\<open>numerical_reduce_axes\<close>;
  the first argument is \<open>i\<close>.
\<close>

fun reduce_axes_loop ::
  "nat \<Rightarrow> nat \<Rightarrow> ndarray_obj_t \<Rightarrow> nat list \<times> int list \<Rightarrow> nat list \<times> int list" where
  "reduce_axes_loop 0 index nd (sh, st) = (sh, st)"
| "reduce_axes_loop (Suc j) index nd (sh, st) =
     reduce_axes_loop j index nd
       (if Suc j > index
        then (sh[Suc j := shape nd ! Suc j], st[Suc j := strides nd ! Suc j])
        else (sh[Suc j := shape nd ! j], st[Suc j := strides nd ! j]))"

text \<open>
  \<^verbatim>\<open>numerical_reduce_axes(ndarray, axis, shape, strides)\<close>: \<open>sh\<close> and \<open>st\<close> are the caller's
  arrays, returned as the function leaves them.
\<close>

definition numerical_reduce_axes ::
  "ndarray_obj_t \<Rightarrow> int \<Rightarrow> nat list \<Rightarrow> int list \<Rightarrow> nat list \<times> int list" where
  "numerical_reduce_axes nd axis sh st =
     (let index = uint8_t (int ULAB_MAX_DIMS - int (ndim nd) + axis)
      in if ndim nd = 1 \<and> axis = 0 then (sh[ULAB_MAX_DIMS - 1 := 1], st)
         else reduce_axes_loop (ULAB_MAX_DIMS - 1) index nd (sh, st))"

text \<open>
  The axis check that \<^verbatim>\<open>numerical_sum_mean_std_ndarray\<close>, \<^verbatim>\<open>numerical_argmin_argmax_ndarray\<close>,
  \<^verbatim>\<open>numerical_diff\<close>, \<^verbatim>\<open>numerical_flip\<close> and \<^verbatim>\<open>numerical_roll\<close> each spell out:
  \<^verbatim>\<open>int8_t ax = ...; if(ax < 0) ax += ndarray->ndim;
  if((ax < 0) || (ax > ndarray->ndim - 1)) mp_raise_ValueError("index out of range");\<close>
\<close>

definition axis_check :: "ndarray_obj_t \<Rightarrow> int \<Rightarrow> error + int" where
  "axis_check nd a =
     (let ax = int8_t a;
          ax = (if ax < 0 then int8_t (ax + int (ndim nd)) else ax)
      in if ax < 0 \<or> ax > int (ndim nd) - 1 then Inl (ValueError ''index out of range'')
         else Inr ax)"

text \<open>
  \<^verbatim>\<open>uint8_t index = ULAB_MAX_DIMS - ndarray->ndim + ax;\<close> In \<^verbatim>\<open>numerical_flip\<close> and
  \<^verbatim>\<open>numerical_roll\<close> the same sum is stored back into the \<^verbatim>\<open>int8_t ax\<close>; after the axis
  check, and for a rank of at most \<open>ULAB_MAX_DIMS\<close>, both hold the same slot.
\<close>

definition axis_index :: "ndarray_obj_t \<Rightarrow> int \<Rightarrow> nat" where
  "axis_index nd ax = uint8_t (int ULAB_MAX_DIMS - int (ndim nd) + ax)"

section \<open>Reductions over an array\<close>

text \<open>
  The macros \<^verbatim>\<open>RUN_SUM\<close>, \<^verbatim>\<open>RUN_MEAN\<close>, \<^verbatim>\<open>RUN_STD\<close>, \<^verbatim>\<open>RUN_ARGMIN\<close> and \<^verbatim>\<open>RUN_DIFF\<close>
  come from \<^verbatim>\<open>numerical.h\<close>, which is not among the sources. They are parameters here: each
  takes the memory, the source array, the result array, the reduced shape and strides and the
  slot of the reduced axis (and the divisor, or the operation, or the stencil and the order),
  and returns the memory with the result array filled in. The element type the reductions
  dispatch on is \<open>dtype\<close> of the source array; \<^verbatim>\<open>numerical_diff\<close> names the C type it
  instantiates \<^verbatim>\<open>RUN_DIFF\<close> with, and that type is an argument of the parameter.
\<close>

datatype c_type = C_uint8_t | C_int8_t | C_uint16_t | C_int16_t | C_mp_float_t

record kernels =
  RUN_SUM :: "machine \<Rightarrow> ndarray_obj_t \<Rightarrow> ndarray_obj_t \<Rightarrow> nat list \<Rightarrow> int list \<Rightarrow> nat \<Rightarrow> machine"
  RUN_MEAN :: "machine \<Rightarrow> ndarray_obj_t \<Rightarrow> ndarray_obj_t \<Rightarrow> nat list \<Rightarrow> int list \<Rightarrow> nat \<Rightarrow> machine"
  RUN_STD ::
    "machine \<Rightarrow> ndarray_obj_t \<Rightarrow> ndarray_obj_t \<Rightarrow> nat list \<Rightarrow> int list \<Rightarrow> nat \<Rightarrow> real \<Rightarrow> machine"
  RUN_ARGMIN ::
    "machine \<Rightarrow> ndarray_obj_t \<Rightarrow> ndarray_obj_t \<Rightarrow> nat list \<Rightarrow> int list \<Rightarrow> nat
       \<Rightarrow> NUMERICAL_FUNCTION_TYPE \<Rightarrow> machine"
  RUN_DIFF ::
    "machine \<Rightarrow> ndarray_obj_t \<Rightarrow> c_type \<Rightarrow> ndarray_obj_t \<Rightarrow> nat list \<Rightarrow> int list \<Rightarrow> nat
       \<Rightarrow> int list \<Rightarrow> nat \<Rightarrow> machine"

definition numerical_sum_mean_std_ndarray ::
  "kernels \<Rightarrow> machine \<Rightarrow> ndarray_obj_t \<Rightarrow> mp_obj \<Rightarrow> NUMERICAL_FUNCTION_TYPE \<Rightarrow> nat
     \<Rightarrow> error + mp_obj \<times> machine" where
  "numerical_sum_mean_std_ndarray K m nd axis optype ddof =
     (if axis = MP_None then Inr (MP_None, m)
      else case mp_obj_get_int axis of
        Inl e \<Rightarrow> Inl e
      | Inr a \<Rightarrow>
         (case axis_check nd a of
            Inl e \<Rightarrow> Inl e
          | Inr ax \<Rightarrow>
             (let (sh, st) = numerical_reduce_axes nd ax zero_shape zero_strides;
                  index = axis_index nd ax;
                  (results, m2) =
                    (if optype = NUMERICAL_SUM then
                       (let (r, m1) = ndarray_new_dense_ndarray m (max 1 (ndim nd - 1)) sh (dtype nd)
                        in (r, RUN_SUM K m1 nd r sh st index))
                     else if optype = NUMERICAL_MEAN then
                       (let (r, m1) = ndarray_new_dense_ndarray m (max 1 (ndim nd - 1)) sh NDARRAY_FLOAT
                        in (r, RUN_MEAN K m1 nd r sh st index))
                     else
                       (let dv = real (size_t (int (shape nd ! index) - int ddof));
                            (r, m1) = ndarray_new_dense_ndarray m (max 1 (ndim nd - 1)) sh NDARRAY_FLOAT
                        in (r, RUN_STD K m1 nd r sh st index dv)))
              in if ndim nd = 1
                 then Inr (mp_binary_get_val_array (dtype results) m2 (array results) 0, m2)
                 else Inr (MP_NDArray results, m2))))"

definition numerical_argmin_argmax_ndarray ::
  "kernels \<Rightarrow> machine \<Rightarrow> ndarray_obj_t \<Rightarrow> mp_obj \<Rightarrow> NUMERICAL_FUNCTION_TYPE
     \<Rightarrow> error + mp_obj \<times> machine" where
  "numerical_argmin_argmax_ndarray K m nd axis optype =
     (if len nd = 0
      then Inl (ValueError ''attempt to get (arg)min/(arg)max of empty sequence'')
      else if axis = MP_None then Inr (MP_None, m)
      else case mp_obj_get_int axis of
        Inl e \<Rightarrow> Inl e
      | Inr a \<Rightarrow>
         (case axis_check nd a of
            Inl e \<Rightarrow> Inl e
          | Inr ax \<Rightarrow>
             (let (sh, st) = numerical_reduce_axes nd ax zero_shape zero_strides;
                  index = axis_index nd ax;
                  (results, m1) =
                    (if optype = NUMERICAL_ARGMIN \<or> optype = NUMERICAL_ARGMAX
                     then ndarray_new_dense_ndarray m (max 1 (ndim nd - 1)) sh NDARRAY_INT16
                     else ndarray_new_dense_ndarray m (max 1 (ndim nd - 1)) sh (dtype nd));
                  m2 = RUN_ARGMIN K m1 nd results sh st index optype
              in if len results = 1
                 then Inr (mp_binary_get_val_array (dtype results) m2 (array results) 0, m2)
                 else Inr (MP_NDArray results, m2))))"

text \<open>A result of the sequence path, which leaves the memory alone.\<close>

definition pure_result :: "machine \<Rightarrow> error + mp_obj \<Rightarrow> error + mp_obj \<times> machine" where
  "pure_result m r = (case r of Inl e \<Rightarrow> Inl e | Inr v \<Rightarrow> Inr (v, m))"

text \<open>
  \<^verbatim>\<open>numerical_function\<close>, behind \<^verbatim>\<open>sum\<close>, \<^verbatim>\<open>mean\<close>, \<^verbatim>\<open>min\<close>, \<^verbatim>\<open>max\<close>, \<^verbatim>\<open>argmin\<close> and
  \<^verbatim>\<open>argmax\<close>; \<open>oin\<close> and \<open>axis\<close> are the parsed arguments (\<open>axis\<close> is \<open>MP_None\<close> by default).
\<close>

definition numerical_function ::
  "kernels \<Rightarrow> machine \<Rightarrow> mp_obj \<Rightarrow> mp_obj \<Rightarrow> NUMERICAL_FUNCTION_TYPE \<Rightarrow> error + mp_obj \<times> machine" where
  "numerical_function K m oin axis optype =
     (if axis \<noteq> MP_None \<and> \<not> MP_OBJ_IS_INT axis
      then Inl (TypeError ''axis must be None, or an integer'')
      else case oin of
        MP_Seq kind items \<Rightarrow>
          (case optype of
             NUMERICAL_MIN \<Rightarrow> pure_result m (numerical_argmin_argmax_iterable items optype)
           | NUMERICAL_ARGMIN \<Rightarrow> pure_result m (numerical_argmin_argmax_iterable items optype)
           | NUMERICAL_MAX \<Rightarrow> pure_result m (numerical_argmin_argmax_iterable items optype)
           | NUMERICAL_ARGMAX \<Rightarrow> pure_result m (numerical_argmin_argmax_iterable items optype)
           | NUMERICAL_SUM \<Rightarrow> pure_result m (numerical_sum_mean_std_iterable items optype 0)
           | NUMERICAL_MEAN \<Rightarrow> pure_result m (numerical_sum_mean_std_iterable items optype 0)
           | NUMERICAL_STD \<Rightarrow> Inr (MP_None, m))
      | MP_NDArray nd \<Rightarrow>
          (case optype of
             NUMERICAL_MIN \<Rightarrow> numerical_argmin_argmax_ndarray K m nd axis optype
           | NUMERICAL_MAX \<Rightarrow> numerical_argmin_argmax_ndarray K m nd axis optype
           | NUMERICAL_ARGMIN \<Rightarrow> numerical_argmin_argmax_ndarray K m nd axis optype
           | NUMERICAL_ARGMAX \<Rightarrow> numerical_argmin_argmax_ndarray K m nd axis optype
           | NUMERICAL_SUM \<Rightarrow> numerical_sum_mean_std_ndarray K m nd axis optype 0
           | NUMERICAL_MEAN \<Rightarrow> numerical_sum_mean_std_ndarray K m nd axis optype 0
           | NUMERICAL_STD \<Rightarrow> Inl (NotImplementedError ''operation is not implemented on ndarrays''))
      | _ \<Rightarrow> Inl (TypeError ''input must be tuple, list, range, or ndarray''))"

text \<open>
  \<^verbatim>\<open>numerical_std\<close>; \<open>ddof\<close> is the parsed keyword argument as the \<^verbatim>\<open>size_t\<close> the source
  stores it in.
\<close>

definition numerical_std ::
  "kernels \<Rightarrow> machine \<Rightarrow> mp_obj \<Rightarrow> mp_obj \<Rightarrow> nat \<Rightarrow> error + mp_obj \<times> machine" where
  "numerical_std K m oin axis ddof =
     (case (if axis = MP_None then Inr 0 else mp_obj_get_int axis) of
        Inl e \<Rightarrow> Inl e
      | Inr a \<Rightarrow>
          if axis \<noteq> MP_None \<and> a \<noteq> 0 \<and> a \<noteq> 1
          then Inl (ValueError ''axis must be None, or an integer'')
          else (case oin of
            MP_Seq kind items \<Rightarrow>
              pure_result m (numerical_sum_mean_std_iterable items NUMERICAL_STD ddof)
          | MP_NDArray nd \<Rightarrow> numerical_sum_mean_std_ndarray K m nd axis NUMERICAL_STD ddof
          | _ \<Rightarrow> Inl (TypeError ''input must be tuple, list, range, or ndarray'')))"

section \<open>diff\<close>

text \<open>
  The stencil of \<^verbatim>\<open>numerical_diff\<close>, an \<^verbatim>\<open>int8_t\<close> array of \<open>N + 1\<close> entries:
  \<^verbatim>\<open>stencil[0] = 1; for(uint8_t i=1; i < N+1; i++) stencil[i] = -stencil[i-1]*(N-i+1)/i;\<close>
  The right-hand side is computed in \<^verbatim>\<open>int\<close> and narrowed when stored.
\<close>

definition stencil_step :: "nat \<Rightarrow> int list \<Rightarrow> nat \<Rightarrow> int list" where
  "stencil_step N stencil i =
     stencil[i := int8_t (c_div (- (stencil ! (i - 1)) * (int N - int i + 1)) (int i))]"

definition diff_stencil :: "nat \<Rightarrow> int list" where
  "diff_stencil N = foldl (stencil_step N) ((replicate (N + 1) 0)[0 := 1]) [1..<N + 1]"

text \<open>
  The C type \<^verbatim>\<open>numerical_diff\<close> instantiates \<^verbatim>\<open>RUN_DIFF\<close> with: one branch for each of
  the four integer dtypes, and \<^verbatim>\<open>mp_float_t\<close> in the final \<^verbatim>\<open>else\<close>.
\<close>

definition diff_type :: "NDARRAY_TYPE \<Rightarrow> c_type" where
  "diff_type dt =
     (if dt = NDARRAY_UINT8 then C_uint8_t
      else if dt = NDARRAY_INT8 then C_int8_t
      else if dt = NDARRAY_UINT16 then C_uint16_t
      else if dt = NDARRAY_INT16 then C_int16_t
      else C_mp_float_t)"

text \<open>
  \<^verbatim>\<open>numerical_diff\<close>; \<open>n\<close> and \<open>axis\<close> are the integers the argument parser delivers in
  \<^verbatim>\<open>args[1].u_int\<close> and \<^verbatim>\<open>args[2].u_int\<close> (defaults 1 and -1). \<open>N\<close> is a \<^verbatim>\<open>uint8_t\<close>, so
  the test \<^verbatim>\<open>N < 0\<close> of the source never holds. The scratch arrays are cleared before the
  planner fills them, and the macro receives the source, the result, the reduced shape and
  strides, the slot of the axis, the stencil and the order.
\<close>

definition numerical_diff ::
  "kernels \<Rightarrow> machine \<Rightarrow> mp_obj \<Rightarrow> int \<Rightarrow> int \<Rightarrow> error + mp_obj \<times> machine" where
  "numerical_diff K m oin n axis =
     (case oin of
        MP_NDArray nd \<Rightarrow>
          (case axis_check nd axis of
             Inl e \<Rightarrow> Inl e
           | Inr ax \<Rightarrow>
              (let N = uint8_t n;
                   index = axis_index nd ax
               in if N > 9 \<or> N > shape nd ! index
                  then Inl (ValueError ''differentiation order out of range'')
                  else
                    (let stencil = diff_stencil N;
                         sh = map (\<lambda>i. if i = index then shape nd ! i - N else shape nd ! i)
                                [0..<ULAB_MAX_DIMS];
                         (results, m1) = ndarray_new_dense_ndarray m (ndim nd) sh (dtype nd);
                         (rsh, rst) = numerical_reduce_axes nd ax zero_shape zero_strides;
                         m2 = RUN_DIFF K m1 nd (diff_type (dtype nd)) results rsh rst index stencil N
                     in Inr (MP_NDArray results, m2))))
      | _ \<Rightarrow> Inl (TypeError ''diff argument must be an ndarray''))"


section \<open>flip\<close>

text \<open>\<^verbatim>\<open>numerical_flip\<close>; \<open>axis\<close> is the parsed keyword argument (\<open>MP_None\<close> by default).\<close>

definition numerical_flip :: "machine \<Rightarrow> mp_obj \<Rightarrow> mp_obj \<Rightarrow> error + mp_obj \<times> machine" where
  "numerical_flip m oin axis =
     (case oin of
        MP_NDArray nd \<Rightarrow>
          (if axis = MP_None then
             (let (results, m1) = ndarray_new_linear_array m (len nd) (dtype nd);
                  m2 = ndarray_copy_array m1 nd results;
                  rarray = array results + (int (len results) - 1) * int (itemsize results);
                  results = results\<lparr>array := rarray\<rparr>;
                  results = results\<lparr>strides := (strides results)
                              [ULAB_MAX_DIMS - 1 := - (strides results ! (ULAB_MAX_DIMS - 1))]\<rparr>
              in Inr (MP_NDArray results, m2))
           else if MP_OBJ_IS_INT axis then
             (case mp_obj_get_int axis of
                Inl e \<Rightarrow> Inl e
              | Inr a \<Rightarrow>
                 (case axis_check nd a of
                    Inl e \<Rightarrow> Inl e
                  | Inr ax0 \<Rightarrow>
                     (let ax = axis_index nd ax0;
                          offset = (int (shape nd ! ax) - 1) * strides nd ! ax;
                          results = ndarray_new_view nd (ndim nd) (shape nd) (strides nd) offset;
                          results = results\<lparr>strides := (strides results)[ax := - (strides results ! ax)]\<rparr>
                      in Inr (MP_NDArray results, m))))
           else Inl (TypeError ''wrong axis index''))
      | _ \<Rightarrow> Inl (TypeError ''flip argument must be an ndarray''))"

section \<open>roll\<close>

text \<open>
  The flattened case of \<^verbatim>\<open>numerical_roll\<close>: four nested \<^verbatim>\<open>do ... while\<close> loops over the source.
  The loop state is \<open>(memory, rarray, array, counter)\<close>. \<^verbatim>\<open>memcpy(rarray, array, itemsize)\<close>
  moves one element.
\<close>

type_synonym roll_state = "(int \<Rightarrow> real) \<times> int \<times> int \<times> nat"

definition roll_flat_l :: "ndarray_obj_t \<Rightarrow> ndarray_obj_t \<Rightarrow> roll_state \<Rightarrow> roll_state" where
  "roll_flat_l nd results = (\<lambda>(h, rarray, arr, counter).
     (let h = h(rarray := h arr);
          rarray = rarray + int (itemsize results);
          arr = arr + strides nd ! (ULAB_MAX_DIMS - 1);
          counter = (if counter > 0 then counter - 1 else counter);
          rarray = (if counter = 0 then array results else rarray)
      in (h, rarray, arr, counter)))"

definition roll_flat_k :: "ndarray_obj_t \<Rightarrow> ndarray_obj_t \<Rightarrow> roll_state \<Rightarrow> roll_state" where
  "roll_flat_k nd results s =
     (let (h, rarray, arr, counter) =
            do_while (shape nd ! (ULAB_MAX_DIMS - 1)) (roll_flat_l nd results) s;
          arr = arr - strides nd ! (ULAB_MAX_DIMS - 1) * int (shape nd ! (ULAB_MAX_DIMS - 1));
          arr = arr + strides nd ! (ULAB_MAX_DIMS - 2)
      in (h, rarray, arr, counter))"

definition roll_flat_j :: "ndarray_obj_t \<Rightarrow> ndarray_obj_t \<Rightarrow> roll_state \<Rightarrow> roll_state" where
  "roll_flat_j nd results s =
     (let (h, rarray, arr, counter) =
            do_while (shape nd ! (ULAB_MAX_DIMS - 2)) (roll_flat_k nd results) s;
          arr = arr - strides nd ! (ULAB_MAX_DIMS - 2) * int (shape nd ! (ULAB_MAX_DIMS - 2));
          arr = arr + strides nd ! (ULAB_MAX_DIMS - 3)
      in (h, rarray, arr, counter))"

definition roll_flat_i :: "ndarray_obj_t \<Rightarrow> ndarray_obj_t \<Rightarrow> roll_state \<Rightarrow> roll_state" where
  "roll_flat_i nd results s =
     (let (h, rarray, arr, counter) =
            do_while (shape nd ! (ULAB_MAX_DIMS - 3)) (roll_flat_j nd results) s;
          arr = arr - strides nd ! (ULAB_MAX_DIMS - 3) * int (shape nd ! (ULAB_MAX_DIMS - 3));
          arr = arr + strides nd ! (ULAB_MAX_DIMS - 4)
      in (h, rarray, arr, counter))"

text \<open>
  The single-axis case. \<open>ax\<close> is the physical slot, \<open>sft\<close> is \<^verbatim>\<open>_shift\<close> after the remainder,
  \<open>(sh, st)\<close> and \<open>(rsh, rst)\<close> are the reduced descriptors of the source and of the result.
  The innermost loop has state \<open>(memory, rarray, array, counter)\<close> and the saved \<^verbatim>\<open>_rarray\<close>;
  \<^verbatim>\<open>--counter\<close> is on a \<^verbatim>\<open>size_t\<close>. The outer loops have state \<open>(memory, rarray, array)\<close>.
\<close>

definition roll_axis_l :: "ndarray_obj_t \<Rightarrow> ndarray_obj_t \<Rightarrow> nat \<Rightarrow> int \<Rightarrow> roll_state \<Rightarrow> roll_state" where
  "roll_axis_l nd results ax rarray0 = (\<lambda>(h, rarray, arr, counter).
     (let h = h(rarray := h arr);
          arr = arr + strides nd ! ax;
          rarray = rarray + strides results ! ax;
          counter = size_t (int counter - 1);
          rarray = (if counter = 0 then rarray0 else rarray)
      in (h, rarray, arr, counter)))"

definition roll_axis_k ::
  "ndarray_obj_t \<Rightarrow> ndarray_obj_t \<Rightarrow> nat \<Rightarrow> int \<Rightarrow> nat \<Rightarrow> nat list \<times> int list \<Rightarrow> nat list \<times> int list
     \<Rightarrow> (int \<Rightarrow> real) \<times> int \<times> int \<Rightarrow> (int \<Rightarrow> real) \<times> int \<times> int" where
  "roll_axis_k nd results ax shift sft red rred = (\<lambda>(h, rarray, arr).
     (let rarray0 = rarray;
          rarray = rarray + int sft * strides results ! ax;
          counter = shape results ! ax - sft;
          (rarray, counter) =
            (if shift < 0 \<and> sft > 0
             then (rarray + int (shape results ! ax - sft) * strides results ! ax, sft)
             else (rarray, counter));
          (h, rarray, arr, counter) =
            do_while (shape nd ! ax) (roll_axis_l nd results ax rarray0) (h, rarray, arr, counter);
          rarray = rarray0;
          rarray = rarray + snd rred ! (ULAB_MAX_DIMS - 1);
          arr = arr - strides nd ! ax * int (shape nd ! ax);
          arr = arr + snd red ! (ULAB_MAX_DIMS - 1)
      in (h, rarray, arr)))"

definition roll_axis_j ::
  "ndarray_obj_t \<Rightarrow> ndarray_obj_t \<Rightarrow> nat \<Rightarrow> int \<Rightarrow> nat \<Rightarrow> nat list \<times> int list \<Rightarrow> nat list \<times> int list
     \<Rightarrow> (int \<Rightarrow> real) \<times> int \<times> int \<Rightarrow> (int \<Rightarrow> real) \<times> int \<times> int" where
  "roll_axis_j nd results ax shift sft red rred s =
     (let (h, rarray, arr) =
            do_while (fst red ! (ULAB_MAX_DIMS - 1)) (roll_axis_k nd results ax shift sft red rred) s;
          rarray = rarray - snd rred ! (ULAB_MAX_DIMS - 1) * int (fst rred ! (ULAB_MAX_DIMS - 1));
          rarray = rarray + snd rred ! (ULAB_MAX_DIMS - 2);
          arr = arr - snd red ! (ULAB_MAX_DIMS - 1) * int (fst red ! (ULAB_MAX_DIMS - 1));
          arr = arr + snd red ! (ULAB_MAX_DIMS - 2)
      in (h, rarray, arr))"

definition roll_axis_i ::
  "ndarray_obj_t \<Rightarrow> ndarray_obj_t \<Rightarrow> nat \<Rightarrow> int \<Rightarrow> nat \<Rightarrow> nat list \<times> int list \<Rightarrow> nat list \<times> int list
     \<Rightarrow> (int \<Rightarrow> real) \<times> int \<times> int \<Rightarrow> (int \<Rightarrow> real) \<times> int \<times> int" where
  "roll_axis_i nd results ax shift sft red rred s =
     (let (h, rarray, arr) =
            do_while (fst red ! (ULAB_MAX_DIMS - 2)) (roll_axis_j nd results ax shift sft red rred) s;
          rarray = rarray - snd rred ! (ULAB_MAX_DIMS - 2) * int (fst rred ! (ULAB_MAX_DIMS - 2));
          rarray = rarray + snd rred ! (ULAB_MAX_DIMS - 3);
          arr = arr - snd red ! (ULAB_MAX_DIMS - 2) * int (fst red ! (ULAB_MAX_DIMS - 2));
          arr = arr + snd red ! (ULAB_MAX_DIMS - 3)
      in (h, rarray, arr))"

text \<open>
  \<^verbatim>\<open>numerical_roll\<close>; \<open>distance\<close> and \<open>axis\<close> are the parsed arguments (\<open>axis\<close> is \<open>MP_None\<close>
  by default). In \<^verbatim>\<open>_shift % results->len\<close> the left operand is converted to \<^verbatim>\<open>size_t\<close>.
\<close>

definition numerical_roll ::
  "machine \<Rightarrow> mp_obj \<Rightarrow> mp_obj \<Rightarrow> mp_obj \<Rightarrow> error + mp_obj \<times> machine" where
  "numerical_roll m oin distance axis =
     (case oin of
        MP_NDArray nd \<Rightarrow>
          (let (results, m1) = ndarray_new_dense_ndarray m (ndim nd) (shape nd) (dtype nd)
           in case mp_obj_get_int distance of
                Inl e \<Rightarrow> Inl e
              | Inr d \<Rightarrow>
                 (let shift = int32_t d;
                      ashift = int32_t (if shift < 0 then - shift else shift)
                  in if axis = MP_None then
                       (if len results = 0 then Inl DivisionByZero
                        else
                          (let sft = size_t ashift mod len results;
                               (rarray, counter) =
                                 (if shift > 0
                                  then (array results + int (sft * itemsize results),
                                        len results - sft)
                                  else (array results + int ((len results - sft) * itemsize results),
                                        sft));
                               (h, r, a, c) =
                                 do_while (shape nd ! (ULAB_MAX_DIMS - 4)) (roll_flat_i nd results)
                                   (mem m1, rarray, array nd, counter)
                           in Inr (MP_NDArray results, m1\<lparr>mem := h\<rparr>)))
                     else if MP_OBJ_IS_INT axis then
                       (case mp_obj_get_int axis of
                          Inl e \<Rightarrow> Inl e
                        | Inr a \<Rightarrow>
                           (case axis_check nd a of
                              Inl e \<Rightarrow> Inl e
                            | Inr ax0 \<Rightarrow>
                               (let red = numerical_reduce_axes nd ax0 zero_shape zero_strides;
                                    rred = numerical_reduce_axes results ax0 zero_shape zero_strides;
                                    ax = axis_index nd ax0
                                in if shape results ! ax = 0 then Inl DivisionByZero
                                   else
                                     (let sft = size_t ashift mod shape results ! ax;
                                          (h, r, a) =
                                            do_while (fst red ! (ULAB_MAX_DIMS - 3))
                                              (roll_axis_i nd results ax shift sft red rred)
                                              (mem m1, array results, array nd)
                                      in Inr (MP_NDArray results, m1\<lparr>mem := h\<rparr>)))))
                     else Inl (TypeError ''wrong axis index'')))
      | _ \<Rightarrow> Inl (TypeError ''roll argument must be an ndarray''))"

section \<open>Observations and sample inputs\<close>

text \<open>The elements, in traversal order, of the array an operation returns.\<close>

definition result_elems :: "error + mp_obj \<times> machine \<Rightarrow> real list option" where
  "result_elems r =
     (case r of Inr (MP_NDArray a, m) \<Rightarrow> Some (ndarray_elems m a) | _ \<Rightarrow> None)"

text \<open>The descriptor of the array an operation returns.\<close>

definition result_array :: "error + mp_obj \<times> machine \<Rightarrow> ndarray_obj_t option" where
  "result_array r = (case r of Inr (MP_NDArray a, m) \<Rightarrow> Some a | _ \<Rightarrow> None)"

text \<open>\<^verbatim>\<open>flip\<close> applied to the array that \<^verbatim>\<open>flip\<close> returned, with the same axis argument.\<close>

definition flip_twice :: "machine \<Rightarrow> ndarray_obj_t \<Rightarrow> mp_obj \<Rightarrow> error + mp_obj \<times> machine" where
  "flip_twice m nd axis =
     (case numerical_flip m (MP_NDArray nd) axis of
        Inl e \<Rightarrow> Inl e
      | Inr (r, m1) \<Rightarrow> numerical_flip m1 r axis)"

text \<open>Kernels that leave the result array as allocated.\<close>

definition idle_kernels :: kernels where
  "idle_kernels =
     \<lparr>RUN_SUM = (\<lambda>m nd r sh st i. m), RUN_MEAN = (\<lambda>m nd r sh st i. m),
      RUN_STD = (\<lambda>m nd r sh st i d. m), RUN_ARGMIN = (\<lambda>m nd r sh st i t. m),
      RUN_DIFF = (\<lambda>m nd ty r sh st i stencil N. m)\<rparr>"

text \<open>
  The \<^verbatim>\<open>uint8\<close> vector \<open>[1,2,3,4,5]\<close>, dense at address 0, in a memory that holds 0
  everywhere else.
\<close>

definition vec5 :: ndarray_obj_t where
  "vec5 = \<lparr>dense = 1, dtype = NDARRAY_UINT8, itemsize = 1, boolean = 0, ndim = 1, len = 5,
           shape = [1, 1, 1, 5], strides = [5, 5, 5, 1], array = 0\<rparr>"

definition mem5 :: machine where
  "mem5 = \<lparr>mem = (\<lambda>a. if 0 \<le> a \<and> a < 5 then real_of_int (a + 1) else 0), brk = 5\<rparr>"

text \<open>The \<^verbatim>\<open>uint8\<close> matrix \<open>[[1,2,3],[4,5,6]]\<close>, dense at address 0.\<close>

definition mat23 :: ndarray_obj_t where
  "mat23 = \<lparr>dense = 1, dtype = NDARRAY_UINT8, itemsize = 1, boolean = 0, ndim = 2, len = 6,
            shape = [1, 1, 2, 3], strides = [6, 6, 3, 1], array = 0\<rparr>"

definition mem6 :: machine where
  "mem6 = \<lparr>mem = (\<lambda>a. if 0 \<le> a \<and> a < 6 then real_of_int (a + 1) else 0), brk = 6\<rparr>"



text \<open>The \<^verbatim>\<open>uint8\<close> matrix \<open>[[1,2,3]]\<close> of shape (1, 3), dense at address 0.\<close>

definition row13 :: ndarray_obj_t where
  "row13 = \<lparr>dense = 1, dtype = NDARRAY_UINT8, itemsize = 1, boolean = 0, ndim = 2, len = 3,
            shape = [1, 1, 1, 3], strides = [3, 3, 3, 1], array = 0\<rparr>"

section \<open>Evaluation rules\<close>

lemma repeat_numeral: "repeat (numeral n) body s = repeat (pred_numeral n) body (body s)"
  by (simp add: numeral_eq_Suc)

lemmas roll_flat_defs = numerical_roll_def ndarray_new_dense_ndarray_def ULAB_MAX_DIMS_def
  int32_t_def size_t_def do_while_def repeat_numeral roll_flat_i_def roll_flat_j_def
  roll_flat_k_def roll_flat_l_def Let_def

text \<open>Descriptors have four slots; narrowing leaves small integers alone.\<close>

lemma list4: "length xs = 4 \<Longrightarrow> \<exists>a b c d. xs = [a, b, c, d]"
  by (auto simp: length_Suc_conv numeral_eq_Suc)

lemma int8_t_id: "- 128 \<le> i \<Longrightarrow> i \<le> 127 \<Longrightarrow> int8_t i = i"
  by (simp add: int8_t_def)

lemma uint8_t_small: "0 \<le> i \<Longrightarrow> i \<le> 255 \<Longrightarrow> uint8_t i = nat i"
  by (simp add: uint8_t_def)

lemma axis_index_eq:
  assumes "ndim nd \<le> ULAB_MAX_DIMS" "0 \<le> ax" "ax < int (ndim nd)"
  shows "axis_index nd ax = ULAB_MAX_DIMS - ndim nd + nat ax"
  using assms by (simp add: axis_index_def ULAB_MAX_DIMS_def uint8_t_small nat_add_distrib nat_diff_distrib)

lemma uint8_t_negative: "- 128 \<le> i \<Longrightarrow> i < 0 \<Longrightarrow> 128 \<le> uint8_t i"
proof -
  assume a: "- 128 \<le> i" "i < 0"
  have "i mod 256 = i + 256"
    using a by presburger
  with a show ?thesis by (simp add: uint8_t_def)
qed

section \<open>Stored sequences and traversal\<close>

lemma write_seq_below: "a < p \<Longrightarrow> 0 \<le> step \<Longrightarrow> write_seq h p step xs a = h a"
  by (induction xs arbitrary: h p) simp_all

lemma write_seq_nth:
  "0 < step \<Longrightarrow> i < length xs \<Longrightarrow> write_seq h p step xs (p + int i * step) = xs ! i"
proof (induction xs arbitrary: h p i)
  case Nil
  then show ?case by simp
next
  case (Cons x xs)
  show ?case
  proof (cases i)
    case 0
    with Cons.prems show ?thesis by (simp add: write_seq_below)
  next
    case (Suc j)
    have a: "p + int (Suc j) * step = (p + step) + int j * step"
      by (simp add: algebra_simps)
    have "write_seq (h(p := x)) (p + step) step xs ((p + step) + int j * step) = xs ! j"
      using Cons.prems Suc by (intro Cons.IH) simp_all
    with Suc a show ?thesis
      by (simp add: add.assoc)
  qed
qed

lemma write_seq_read_back:
  "0 < step \<Longrightarrow> map (\<lambda>i. write_seq h p step xs (p + int i * step)) [0..<length xs] = xs"
  by (rule nth_equalityI) (simp_all add: write_seq_nth)

lemma rev_map_upt: "rev (map f [0..<n]) = map (\<lambda>l. f (n - 1 - l)) [0..<n]"
  by (rule nth_equalityI) (simp_all add: rev_nth)

lemma concat_map_const_length:
  "(\<And>i. length (f i) = c) \<Longrightarrow> length (concat (map f [0..<n])) = n * c"
  by (induction n) simp_all

lemma ndarray_elems_length:
  assumes "length (shape a) = ULAB_MAX_DIMS"
  shows "length (ndarray_elems m a) = prod_list (shape a)"
proof -
  obtain n0 n1 n2 n3 where s: "shape a = [n0, n1, n2, n3]"
    using list4 [of "shape a"] assms by (auto simp: ULAB_MAX_DIMS_def)
  show ?thesis
    by (simp add: ndarray_elems_def traverse_def s concat_map_const_length)
qed

text \<open>A vector read through its last slot only.\<close>

lemma ndarray_elems_vector:
  assumes "shape a = [1, 1, 1, n]"
  shows "ndarray_elems m a = map (\<lambda>l. mem m (array a + int l * strides a ! 3)) [0..<n]"
  by (simp add: ndarray_elems_def traverse_def assms element_address_def)

lemma itemsize_of_pos: "0 < itemsize_of dt"
  by (cases dt) simp_all

lemma new_linear_array_eq:
  "ndarray_new_linear_array m n dt =
     (\<lparr>dense = 1, dtype = dt, itemsize = itemsize_of dt, boolean = 0, ndim = 1, len = n,
       shape = [1, 1, 1, n],
       strides = [int (itemsize_of dt) * int n, int (itemsize_of dt) * int n,
                  int (itemsize_of dt) * int n, int (itemsize_of dt)],
       array = brk m\<rparr>,
      m\<lparr>brk := brk m + int (n * itemsize_of dt)\<rparr>)"
  by (simp add: ndarray_new_linear_array_def ndarray_new_dense_ndarray_def zero_shape_def
      ULAB_MAX_DIMS_def Let_def upt_rec eval_nat_numeral)

section \<open>The sequence path\<close>

text \<open>
  C10. On a tuple, list or range without items, \<^verbatim>\<open>mean\<close> and \<^verbatim>\<open>std\<close> (for every \<open>ddof\<close>)
  return the float 0.0 and raise nothing, while \<^verbatim>\<open>min\<close>, \<^verbatim>\<open>max\<close>, \<^verbatim>\<open>argmin\<close> and
  \<^verbatim>\<open>argmax\<close> raise the ValueError for an empty sequence.
\<close>

theorem empty_sequence_mean_std:
  "numerical_function K m (MP_Seq kind []) MP_None NUMERICAL_MEAN = Inr (MP_Float 0, m)
   \<and> numerical_std K m (MP_Seq kind []) MP_None ddof = Inr (MP_Float 0, m)
   \<and> numerical_function K m (MP_Seq kind []) MP_None NUMERICAL_MIN
       = Inl (ValueError ''attempt to get argmin/argmax of an empty sequence'')
   \<and> numerical_function K m (MP_Seq kind []) MP_None NUMERICAL_MAX
       = Inl (ValueError ''attempt to get argmin/argmax of an empty sequence'')
   \<and> numerical_function K m (MP_Seq kind []) MP_None NUMERICAL_ARGMIN
       = Inl (ValueError ''attempt to get argmin/argmax of an empty sequence'')
   \<and> numerical_function K m (MP_Seq kind []) MP_None NUMERICAL_ARGMAX
       = Inl (ValueError ''attempt to get argmin/argmax of an empty sequence'')"
  by (simp add: numerical_function_def numerical_std_def pure_result_def
      numerical_sum_mean_std_iterable_def numerical_argmin_argmax_iterable_def
      iter_scan_def iter_init_def)

text \<open>The scan over a sequence of floats, and what its \<^verbatim>\<open>sum\<close> accumulator holds.\<close>

lemma iter_loop_floats:
  "iter_loop a (map MP_Float vs) = Inr (foldl iter_next a vs)"
  by (induction vs arbitrary: a) simp_all

lemma acc_sum_foldl: "acc_sum (foldl iter_next a vs) = acc_sum a + sum_list vs"
  by (induction vs arbitrary: a) (simp_all add: iter_next_def Let_def)

lemma sum_iterable_floats:
  "numerical_sum_mean_std_iterable (map MP_Float vs) NUMERICAL_SUM ddof
     = Inr (MP_Float (9 / 10 + sum_list vs))"
  by (cases vs)
     (simp_all add: numerical_sum_mean_std_iterable_def iter_scan_def iter_loop_floats
        acc_sum_foldl iter_first_def iter_init_def)

text \<open>
  The mean of a sequence of floats with at least one item is the arithmetic mean: the running
  mean divides by the count before its increment, which is the number of items seen.
\<close>

lemma running_mean_foldl:
  assumes "acc_count a = Suc k" and "0 < k" and "acc_M a * real k = t" and "acc_m a = acc_M a"
  shows "acc_M (foldl iter_next a vs) * real (k + length vs) = t + sum_list vs
     \<and> acc_m (foldl iter_next a vs) = acc_M (foldl iter_next a vs)
     \<and> acc_count (foldl iter_next a vs) = Suc (k + length vs)"
  using assms
proof (induction vs arbitrary: a k t)
  case Nil
  then show ?case by simp
next
  case (Cons v vs)
  define b where "b = iter_next a v"
  have c: "acc_count b = Suc (Suc k)"
    by (simp add: b_def iter_next_def Let_def Cons.prems(1))
  have m: "acc_m b = acc_M b"
    by (simp add: b_def iter_next_def Let_def)
  have "acc_M b = acc_M a + (v - acc_M a) / real (Suc k)"
    by (simp add: b_def iter_next_def Let_def Cons.prems(1))
  then have "acc_M b * real (Suc k) = acc_M a * real k + v"
    by (simp add: field_simps)
  then have s: "acc_M b * real (Suc k) = t + v"
    by (simp add: Cons.prems(3))
  have "acc_M (foldl iter_next b vs) * real (Suc k + length vs) = (t + v) + sum_list vs
     \<and> acc_m (foldl iter_next b vs) = acc_M (foldl iter_next b vs)
     \<and> acc_count (foldl iter_next b vs) = Suc (Suc k + length vs)"
    by (rule Cons.IH [OF c _ s m]) simp
  then show ?case
    by (simp add: b_def add.assoc)
qed

lemma mean_iterable_floats:
  "numerical_sum_mean_std_iterable (map MP_Float (v # vs)) NUMERICAL_MEAN ddof
     = Inr (MP_Float (sum_list (v # vs) / real (length (v # vs))))"
proof -
  define a where "a = iter_first iter_init v"
  have "acc_count a = Suc 1" "acc_M a * real 1 = v" "acc_m a = acc_M a"
    by (simp_all add: a_def iter_first_def iter_init_def)
  from running_mean_foldl [OF this(1) _ this(2,3), of vs]
  have r: "acc_M (foldl iter_next a vs) * real (1 + length vs) = v + sum_list vs"
    "acc_m (foldl iter_next a vs) = acc_M (foldl iter_next a vs)"
    "acc_count (foldl iter_next a vs) = Suc (1 + length vs)"
    by simp_all
  from r(1) have "acc_M (foldl iter_next a vs) = (v + sum_list vs) / real (1 + length vs)"
    by (simp add: field_simps)
  with r(2,3) show ?thesis
    by (simp add: numerical_sum_mean_std_iterable_def iter_scan_def iter_loop_floats
        a_def [symmetric])
qed

text \<open>
  C3. The specification states that \<^verbatim>\<open>sum\<close> of a sequence is the sum of its elements and nothing else.
  The accumulator starts at 0.9: \<^verbatim>\<open>sum([1, 2, 3])\<close> is 6.9.
\<close>

theorem sum_sequence_offset:
  "numerical_function K m (MP_Seq List [MP_Int 1, MP_Int 2, MP_Int 3]) MP_None NUMERICAL_SUM
     = Inr (MP_Float (69 / 10), m)"
  by (simp add: numerical_function_def pure_result_def numerical_sum_mean_std_iterable_def
      iter_scan_def iter_init_def iter_first_def iter_next_def Let_def)

text \<open>
  C2. The specification states that \<^verbatim>\<open>std\<close> of a sequence is the closed-form standard deviation, and 0
  when the number of elements is at most \<open>ddof\<close>. The count starts at 1 and multiplies the
  sum of squared deviations: \<^verbatim>\<open>std([1, 2])\<close> is the square root of \<open>3 * (1/2) / 3\<close>,
  not of \<open>((1 - 3/2)\<^sup>2 + (2 - 3/2)\<^sup>2) / 2\<close>; and \<^verbatim>\<open>std([1, 2, 3], ddof=3)\<close> is the square
  root of \<open>4 * 2 / 1\<close>, not 0.
\<close>

theorem std_sequence_value:
  "numerical_std K m (MP_Seq List [MP_Int 1, MP_Int 2]) MP_None 0 = Inr (MP_Float (sqrt (1 / 2)), m)
   \<and> sqrt (1 / 2) \<noteq> sqrt ((((1::real) - 3 / 2)\<^sup>2 + (2 - 3 / 2)\<^sup>2) / (2 - 0))
   \<and> numerical_std K m (MP_Seq List [MP_Int 1, MP_Int 2, MP_Int 3]) MP_None 3
        = Inr (MP_Float (sqrt 8), m)
   \<and> sqrt 8 \<noteq> 0"
  by (simp add: numerical_std_def pure_result_def numerical_sum_mean_std_iterable_def
      iter_scan_def iter_init_def iter_first_def iter_next_def Let_def power2_eq_square)

section \<open>Validation of the axis argument\<close>

text \<open>
  The axis check on an integer that fits \<^verbatim>\<open>int8_t\<close>, and how each operation passes its
  error on.
\<close>

lemma axis_check_eq:
  assumes "1 \<le> ndim nd" and "ndim nd \<le> ULAB_MAX_DIMS" and "- 128 \<le> a" and "a \<le> 127"
  shows "axis_check nd a =
     (if - int (ndim nd) \<le> a \<and> a < int (ndim nd) then Inr (a mod int (ndim nd))
      else Inl (ValueError ''index out of range''))"
proof (cases "a < 0")
  case True
  have n: "int (ndim nd) \<le> 4" "1 \<le> int (ndim nd)"
    using assms by (simp_all add: ULAB_MAX_DIMS_def)
  have 1: "int8_t a = a" using assms by (simp add: int8_t_id)
  have 2: "int8_t (a + int (ndim nd)) = a + int (ndim nd)"
    using assms n True by (simp add: int8_t_id)
  have 3: "- int (ndim nd) \<le> a \<Longrightarrow> a mod int (ndim nd) = a + int (ndim nd)"
  proof -
    assume "- int (ndim nd) \<le> a"
    then have "(a + int (ndim nd)) mod int (ndim nd) = a + int (ndim nd)"
      using True by (intro mod_pos_pos_trivial) simp_all
    then show ?thesis by simp
  qed
  show ?thesis
    using True n 3 by (auto simp: axis_check_def Let_def 1 2)
next
  case False
  have 1: "int8_t a = a" using assms by (simp add: int8_t_id)
  show ?thesis
    using False by (auto simp: axis_check_def Let_def 1)
qed

lemma axis_check_cases:
  "axis_check nd a = Inl (ValueError ''index out of range'') \<or> (\<exists>ax. axis_check nd a = Inr ax)"
  by (simp add: axis_check_def Let_def)

lemma sum_mean_std_ndarray_axis_error:
  "numerical_sum_mean_std_ndarray K m nd (MP_Int a) optype ddof
      = Inl (ValueError ''index out of range'')
   \<longleftrightarrow> axis_check nd a = Inl (ValueError ''index out of range'')"
  using axis_check_cases [of nd a]
  by (auto simp: numerical_sum_mean_std_ndarray_def Let_def split_def split: if_splits)

lemma argmin_argmax_ndarray_axis_error:
  "len nd \<noteq> 0 \<Longrightarrow>
   numerical_argmin_argmax_ndarray K m nd (MP_Int a) optype
      = Inl (ValueError ''index out of range'')
   \<longleftrightarrow> axis_check nd a = Inl (ValueError ''index out of range'')"
  using axis_check_cases [of nd a]
  by (auto simp: numerical_argmin_argmax_ndarray_def Let_def split_def split: if_splits)

lemma numerical_function_axis_error:
  assumes "len nd \<noteq> 0" and "optype \<noteq> NUMERICAL_STD"
  shows "numerical_function K m (MP_NDArray nd) (MP_Int a) optype
      = Inl (ValueError ''index out of range'')
   \<longleftrightarrow> axis_check nd a = Inl (ValueError ''index out of range'')"
  using assms
  by (cases optype)
     (simp_all add: numerical_function_def sum_mean_std_ndarray_axis_error
        argmin_argmax_ndarray_axis_error)

lemma diff_axis_error:
  "numerical_diff K m (MP_NDArray nd) n a = Inl (ValueError ''index out of range'')
   \<longleftrightarrow> axis_check nd a = Inl (ValueError ''index out of range'')"
  using axis_check_cases [of nd a]
  by (auto simp: numerical_diff_def Let_def split_def split: if_splits)

lemma flip_axis_error:
  "numerical_flip m (MP_NDArray nd) (MP_Int a) = Inl (ValueError ''index out of range'')
   \<longleftrightarrow> axis_check nd a = Inl (ValueError ''index out of range'')"
  using axis_check_cases [of nd a]
  by (auto simp: numerical_flip_def Let_def split_def split: if_splits)

lemma roll_axis_error:
  "numerical_roll m (MP_NDArray nd) (MP_Int d) (MP_Int a) = Inl (ValueError ''index out of range'')
   \<longleftrightarrow> axis_check nd a = Inl (ValueError ''index out of range'')"
  using axis_check_cases [of nd a]
  by (auto simp: numerical_roll_def Let_def split_def split: if_splits)

lemma sum_mean_std_ndarray_no_guard_error:
  "numerical_sum_mean_std_ndarray K m nd (MP_Int a) optype ddof
      \<noteq> Inl (ValueError ''axis must be None, or an integer'')"
  using axis_check_cases [of nd a]
  by (auto simp: numerical_sum_mean_std_ndarray_def Let_def split_def split: if_splits)

lemma std_axis_guard:
  "numerical_std K m (MP_NDArray nd) (MP_Int a) ddof
      = Inl (ValueError ''axis must be None, or an integer'')
   \<longleftrightarrow> a \<noteq> 0 \<and> a \<noteq> 1"
  by (simp add: numerical_std_def sum_mean_std_ndarray_no_guard_error)

lemma std_axis_type:
  assumes "x \<noteq> MP_None" and "\<not> MP_OBJ_IS_INT x" and "\<forall>b. x \<noteq> MP_Bool b"
  shows "numerical_std K m oin x ddof = Inl (TypeError ''can't convert to int'')"
  using assms by (cases x) (auto simp: numerical_std_def)

lemma numerical_function_axis_type:
  "x \<noteq> MP_None \<Longrightarrow> \<not> MP_OBJ_IS_INT x \<Longrightarrow>
   numerical_function K m oin x optype = Inl (TypeError ''axis must be None, or an integer'')"
  by (simp add: numerical_function_def)

lemma flip_axis_type:
  "x \<noteq> MP_None \<Longrightarrow> \<not> MP_OBJ_IS_INT x \<Longrightarrow>
   numerical_flip m (MP_NDArray nd) x = Inl (TypeError ''wrong axis index'')"
  by (simp add: numerical_flip_def)

lemma roll_axis_type:
  "x \<noteq> MP_None \<Longrightarrow> \<not> MP_OBJ_IS_INT x \<Longrightarrow>
   numerical_roll m (MP_NDArray nd) (MP_Int d) x = Inl (TypeError ''wrong axis index'')"
  by (simp add: numerical_roll_def Let_def split_def)

text \<open>
  The axis argument, operation by operation. On an array of rank 1 to 4: an axis that is
  neither \<open>None\<close> nor an integer makes \<^verbatim>\<open>sum\<close>, \<^verbatim>\<open>mean\<close>, \<^verbatim>\<open>min\<close>, \<^verbatim>\<open>max\<close>, \<^verbatim>\<open>argmin\<close>,
  \<^verbatim>\<open>argmax\<close>, \<^verbatim>\<open>flip\<close> and \<^verbatim>\<open>roll\<close> fail with their TypeError. For an integer axis \<open>a\<close> that
  fits eight signed bits, the axis check fails with the ValueError "index out of range" when
  \<open>a\<close> is outside \<open>[-ndim, ndim)\<close> and otherwise yields \<open>a mod ndim\<close>, whose physical slot is
  \<open>ULAB_MAX_DIMS - ndim + (a mod ndim)\<close>; those six reductions (on an array with elements),
  \<^verbatim>\<open>diff\<close>, \<^verbatim>\<open>flip\<close> and \<^verbatim>\<open>roll\<close> raise that ValueError exactly when \<open>a\<close> is outside
  \<open>[-ndim, ndim)\<close>.
\<close>

lemma axis_check_by_operation:
  assumes "1 \<le> ndim nd" and "ndim nd \<le> ULAB_MAX_DIMS" and "len nd \<noteq> 0"
    and "- 128 \<le> a" and "a \<le> 127"
    and "x \<noteq> MP_None" and "\<not> MP_OBJ_IS_INT x"
    and "optype \<noteq> NUMERICAL_STD"
  shows
    "numerical_function K m oin x optype = Inl (TypeError ''axis must be None, or an integer'')
     \<and> numerical_flip m (MP_NDArray nd) x = Inl (TypeError ''wrong axis index'')
     \<and> numerical_roll m (MP_NDArray nd) (MP_Int d) x = Inl (TypeError ''wrong axis index'')
     \<and> axis_check nd a =
         (if - int (ndim nd) \<le> a \<and> a < int (ndim nd) then Inr (a mod int (ndim nd))
          else Inl (ValueError ''index out of range''))
     \<and> axis_index nd (a mod int (ndim nd))
         = ULAB_MAX_DIMS - ndim nd + nat (a mod int (ndim nd))
     \<and> (numerical_function K m (MP_NDArray nd) (MP_Int a) optype
           = Inl (ValueError ''index out of range'')
         \<longleftrightarrow> a < - int (ndim nd) \<or> int (ndim nd) \<le> a)
     \<and> (numerical_diff K m (MP_NDArray nd) n a = Inl (ValueError ''index out of range'')
         \<longleftrightarrow> a < - int (ndim nd) \<or> int (ndim nd) \<le> a)
     \<and> (numerical_flip m (MP_NDArray nd) (MP_Int a) = Inl (ValueError ''index out of range'')
         \<longleftrightarrow> a < - int (ndim nd) \<or> int (ndim nd) \<le> a)
     \<and> (numerical_roll m (MP_NDArray nd) (MP_Int d) (MP_Int a)
           = Inl (ValueError ''index out of range'')
         \<longleftrightarrow> a < - int (ndim nd) \<or> int (ndim nd) \<le> a)"
proof -
  have chk: "axis_check nd a =
         (if - int (ndim nd) \<le> a \<and> a < int (ndim nd) then Inr (a mod int (ndim nd))
          else Inl (ValueError ''index out of range''))"
    using assms(1,2,4,5) by (rule axis_check_eq)
  have err: "axis_check nd a = Inl (ValueError ''index out of range'')
     \<longleftrightarrow> a < - int (ndim nd) \<or> int (ndim nd) \<le> a"
    unfolding chk by auto
  have pos: "0 < int (ndim nd)"
    using assms(1) by simp
  have idx: "axis_index nd (a mod int (ndim nd))
         = ULAB_MAX_DIMS - ndim nd + nat (a mod int (ndim nd))"
    using assms(2) pos by (intro axis_index_eq) simp_all
  show ?thesis
    using chk idx
    by (auto simp add: numerical_function_axis_type [OF assms(6,7)] flip_axis_type [OF assms(6,7)]
        roll_axis_type [OF assms(6,7)] numerical_function_axis_error [OF assms(3,8)]
        diff_axis_error flip_axis_error roll_axis_error err)
qed

text \<open>
  C5. The claim has every operation of the family, \<^verbatim>\<open>std\<close> among them, accept every integer
  axis in \<open>[-ndim, ndim)\<close> and reject every integer outside. On the vector \<open>[1,2,3,4,5]\<close>,
  whose rank is 1, the axis -1 passes the axis check and names slot 3, and \<^verbatim>\<open>mean\<close> accepts
  it. \<^verbatim>\<open>std\<close> raises the ValueError "axis must be None, or an integer" for it, whatever the
  kernels, the memory and \<open>ddof\<close>: \<^verbatim>\<open>numerical_std\<close> lets only the integers 0 and 1 through,
  before it reaches the branch it shares with \<^verbatim>\<open>sum\<close> and \<^verbatim>\<open>mean\<close>, which serves every slot.
  The axis 256 lies outside \<open>[-1, 1)\<close> and \<^verbatim>\<open>sum\<close> does not reject it: the narrowing to
  \<^verbatim>\<open>int8_t\<close> turns it into 0. An axis that is a string makes \<^verbatim>\<open>std\<close> fail with the TypeError
  of the host's conversion to an integer.
\<close>

theorem std_rejects_valid_axis:
  "numerical_std K m (MP_NDArray vec5) (MP_Int (- 1)) ddof
      = Inl (ValueError ''axis must be None, or an integer'')
   \<and> axis_check vec5 (- 1) = Inr 0
   \<and> axis_index vec5 0 = 3
   \<and> \<not> isl (numerical_function K m (MP_NDArray vec5) (MP_Int (- 1)) NUMERICAL_MEAN)
   \<and> numerical_function K m (MP_NDArray vec5) (MP_Int 256) NUMERICAL_SUM
      = numerical_function K m (MP_NDArray vec5) (MP_Int 0) NUMERICAL_SUM
   \<and> \<not> isl (numerical_function K m (MP_NDArray vec5) (MP_Int 256) NUMERICAL_SUM)
   \<and> numerical_std K m (MP_NDArray vec5) (MP_Str ''x'') ddof
      = Inl (TypeError ''can't convert to int'')"
  by (simp add: numerical_std_def numerical_function_def numerical_sum_mean_std_ndarray_def
      axis_check_def axis_index_def int8_t_def uint8_t_def vec5_def ULAB_MAX_DIMS_def
      Let_def split_def)

section \<open>The planner: what the reduced descriptor holds\<close>

text \<open>
  C6, as the code has it. For a descriptor of rank 1 to 4 and an axis \<open>0 \<le> axis < ndim\<close>, whose
  physical slot is \<open>ULAB_MAX_DIMS - ndim + axis\<close>: when the rank is at least 2,
  \<^verbatim>\<open>numerical_reduce_axes\<close> leaves in slots 1 to 3 the extents and the strides of the source
  with the chosen slot removed, the slots after the chosen one in place and the slots before
  it moved one slot towards the end; slot 0 is not written and keeps what the caller's
  arrays held. When the rank is 1 only the extent of the last slot is set, to 1, and the
  strides are not written.
\<close>

theorem reduce_axes_shape:
  assumes "length (shape nd) = ULAB_MAX_DIMS" and "length (strides nd) = ULAB_MAX_DIMS"
    and "length sh = ULAB_MAX_DIMS" and "length st = ULAB_MAX_DIMS"
    and "1 \<le> ndim nd" and "ndim nd \<le> ULAB_MAX_DIMS"
    and "0 \<le> axis" and "axis < int (ndim nd)"
  shows "axis_index nd axis = ULAB_MAX_DIMS - ndim nd + nat axis
    \<and> numerical_reduce_axes nd axis sh st =
       (if ndim nd = 1 then (sh[ULAB_MAX_DIMS - 1 := 1], st)
        else (sh ! 0 # take (axis_index nd axis) (shape nd) @ drop (Suc (axis_index nd axis)) (shape nd),
              st ! 0 # take (axis_index nd axis) (strides nd)
                     @ drop (Suc (axis_index nd axis)) (strides nd)))"
proof -
  have idx: "axis_index nd axis = ULAB_MAX_DIMS - ndim nd + nat axis"
    using assms by (simp add: axis_index_eq)
  obtain a b c d where shp: "shape nd = [a, b, c, d]"
    using list4 [of "shape nd"] assms(1) by (auto simp: ULAB_MAX_DIMS_def)
  obtain a' b' c' d' where str: "strides nd = [a', b', c', d']"
    using list4 [of "strides nd"] assms(2) by (auto simp: ULAB_MAX_DIMS_def)
  obtain e f g h where sh: "sh = [e, f, g, h]"
    using list4 [of sh] assms(3) by (auto simp: ULAB_MAX_DIMS_def)
  obtain e' f' g' h' where st: "st = [e', f', g', h']"
    using list4 [of st] assms(4) by (auto simp: ULAB_MAX_DIMS_def)
  have lt: "axis_index nd axis < 4"
    using assms idx by (simp add: ULAB_MAX_DIMS_def)
  have loop: "reduce_axes_loop 3 i nd (sh, st) =
      (if i = 0 then ([e, b, c, d], [e', b', c', d'])
       else if i = 1 then ([e, a, c, d], [e', a', c', d'])
       else if i = 2 then ([e, a, b, d], [e', a', b', d'])
       else ([e, a, b, c], [e', a', b', c']))" for i
    by (simp add: numeral_3_eq_3 shp str sh st)
  have cases: "axis_index nd axis = 0 \<or> axis_index nd axis = 1 \<or> axis_index nd axis = 2
      \<or> axis_index nd axis = 3"
    using lt by linarith
  have one: "ndim nd = 1 \<Longrightarrow> axis = 0"
    using assms by simp
  have "numerical_reduce_axes nd axis sh st =
       (if ndim nd = 1 then (sh[ULAB_MAX_DIMS - 1 := 1], st)
        else (sh ! 0 # take (axis_index nd axis) (shape nd) @ drop (Suc (axis_index nd axis)) (shape nd),
              st ! 0 # take (axis_index nd axis) (strides nd)
                     @ drop (Suc (axis_index nd axis)) (strides nd)))"
  proof -
    have red: "numerical_reduce_axes nd axis sh st =
        (if ndim nd = 1 \<and> axis = 0 then (sh[ULAB_MAX_DIMS - 1 := 1], st)
         else reduce_axes_loop 3 (axis_index nd axis) nd (sh, st))"
      by (simp add: numerical_reduce_axes_def axis_index_def Let_def ULAB_MAX_DIMS_def)
    show ?thesis
      unfolding red loop using cases one by (auto simp: shp str sh st)
  qed
  with idx show ?thesis by simp
qed

theorem reduce_axes_shape_witness:
  "numerical_reduce_axes mat23 0 zero_shape zero_strides = ([0, 1, 1, 3], [0, 6, 6, 1])
   \<and> axis_index mat23 0 = 2"
  using reduce_axes_shape [of mat23 zero_shape zero_strides 0]
  by (simp add: mat23_def zero_shape_def zero_strides_def ULAB_MAX_DIMS_def)

text \<open>
  C6 as the specification states it has slot 0 of the reduced shape fixed at 1. Every caller passes arrays
  filled with zeros and the function never writes slot 0: the reduced shape of the matrix
  \<open>[[1,2,3],[4,5,6]]\<close> along axis 0, and of the vector \<open>[1,2,3,4,5]\<close>, has 0 there.
\<close>

theorem reduce_axes_leading_slot_counterexample:
  "\<not> (fst (numerical_reduce_axes mat23 0 zero_shape zero_strides) ! 0 = 1)
   \<and> \<not> (fst (numerical_reduce_axes vec5 0 zero_shape zero_strides) ! 0 = 1)"
  by (simp add: numerical_reduce_axes_def mat23_def vec5_def zero_shape_def zero_strides_def
      ULAB_MAX_DIMS_def uint8_t_def Let_def numeral_3_eq_3)

section \<open>Reductions of an array: what is returned\<close>

text \<open>
  C1. The specification states that every reduction with \<open>axis = None\<close> returns the scalar folded over
  all elements. On the vector \<open>[1,2,3,4,5]\<close> each of them returns \<open>None\<close>, whatever the
  kernels are.
\<close>

theorem reductions_flattened_return_none:
  "numerical_function K m (MP_NDArray vec5) MP_None NUMERICAL_SUM = Inr (MP_None, m)
   \<and> numerical_function K m (MP_NDArray vec5) MP_None NUMERICAL_MEAN = Inr (MP_None, m)
   \<and> numerical_std K m (MP_NDArray vec5) MP_None 0 = Inr (MP_None, m)
   \<and> numerical_function K m (MP_NDArray vec5) MP_None NUMERICAL_MIN = Inr (MP_None, m)
   \<and> numerical_function K m (MP_NDArray vec5) MP_None NUMERICAL_MAX = Inr (MP_None, m)
   \<and> numerical_function K m (MP_NDArray vec5) MP_None NUMERICAL_ARGMIN = Inr (MP_None, m)
   \<and> numerical_function K m (MP_NDArray vec5) MP_None NUMERICAL_ARGMAX = Inr (MP_None, m)"
  by (simp add: numerical_function_def numerical_std_def numerical_sum_mean_std_ndarray_def
      numerical_argmin_argmax_ndarray_def vec5_def)

text \<open>
  The second part of C1: \<^verbatim>\<open>sum\<close> unwraps its result when the source has rank 1, not when
  the result has one element. The row \<open>[[1,2,3]]\<close> summed along axis 1 comes back as an array
  with one element.
\<close>

lemma sum_one_element_stays_array:
  "map_option len (result_array
      (numerical_function K mem5 (MP_NDArray row13) (MP_Int 1) NUMERICAL_SUM)) = Some 1
   \<and> map_option shape (result_array
      (numerical_function K mem5 (MP_NDArray row13) (MP_Int 1) NUMERICAL_SUM)) = Some [1, 1, 1, 1]"
  by (simp add: result_array_def numerical_function_def numerical_sum_mean_std_ndarray_def
      axis_check_def int8_t_def axis_index_def uint8_t_def numerical_reduce_axes_def
      ndarray_new_dense_ndarray_def zero_shape_def zero_strides_def row13_def mem5_def
      ULAB_MAX_DIMS_def Let_def split_def upt_rec numeral_3_eq_3)

section \<open>diff: the order check\<close>

text \<open>\<^verbatim>\<open>numerical_diff\<close> once the axis has passed its check.\<close>

lemma numerical_diff_checked:
  assumes "axis_check nd axis = Inr ax"
  shows "numerical_diff K m (MP_NDArray nd) n axis =
     (if uint8_t n > 9 \<or> uint8_t n > shape nd ! axis_index nd ax
      then Inl (ValueError ''differentiation order out of range'')
      else Inr (MP_NDArray (fst (ndarray_new_dense_ndarray m (ndim nd)
                  (map (\<lambda>i. if i = axis_index nd ax then shape nd ! i - uint8_t n else shape nd ! i)
                     [0..<ULAB_MAX_DIMS]) (dtype nd))),
                RUN_DIFF K (snd (ndarray_new_dense_ndarray m (ndim nd)
                  (map (\<lambda>i. if i = axis_index nd ax then shape nd ! i - uint8_t n else shape nd ! i)
                     [0..<ULAB_MAX_DIMS]) (dtype nd))) nd (diff_type (dtype nd))
                  (fst (ndarray_new_dense_ndarray m (ndim nd)
                  (map (\<lambda>i. if i = axis_index nd ax then shape nd ! i - uint8_t n else shape nd ! i)
                     [0..<ULAB_MAX_DIMS]) (dtype nd)))
                  (fst (numerical_reduce_axes nd ax zero_shape zero_strides))
                  (snd (numerical_reduce_axes nd ax zero_shape zero_strides))
                  (axis_index nd ax) (diff_stencil (uint8_t n)) (uint8_t n)))"
  by (simp add: numerical_diff_def assms Let_def split_def)

text \<open>
  C7, as the code has it. For an order \<open>n\<close> that fits eight bits (\<open>-128 \<le> n \<le> 255\<close>) and an axis that
  passes the axis check, \<^verbatim>\<open>diff\<close> raises the ValueError for the order exactly when \<open>n\<close> is
  outside \<open>[0, 9]\<close> or \<open>n\<close> is strictly greater than the extent of the chosen axis. An
  order equal to the extent is accepted.
\<close>

theorem diff_order_check:
  assumes "axis_check nd axis = Inr ax" and "- 128 \<le> n" and "n \<le> 255"
  shows "numerical_diff K m (MP_NDArray nd) n axis
           = Inl (ValueError ''differentiation order out of range'')
         \<longleftrightarrow> n < 0 \<or> 9 < n \<or> int (shape nd ! axis_index nd ax) < n"
proof (cases "n < 0")
  case True
  with assms(2) have "128 \<le> uint8_t n" by (simp add: uint8_t_negative)
  with True show ?thesis by (simp add: numerical_diff_checked [OF assms(1)])
next
  case False
  with assms(3) have "uint8_t n = nat n" by (simp add: uint8_t_small)
  with False show ?thesis by (auto simp: numerical_diff_checked [OF assms(1)])
qed

theorem diff_order_check_witness:
  "axis_check vec5 (- 1) = Inr 0
   \<and> numerical_diff idle_kernels mem5 (MP_NDArray vec5) 6 (- 1)
       = Inl (ValueError ''differentiation order out of range'')
   \<and> numerical_diff idle_kernels mem5 (MP_NDArray vec5) 5 (- 1)
       \<noteq> Inl (ValueError ''differentiation order out of range'')"
proof -
  have a: "axis_check vec5 (- 1) = Inr 0"
    by (simp add: axis_check_def int8_t_def vec5_def Let_def)
  have i: "axis_index vec5 0 = 3"
    by (simp add: axis_index_def uint8_t_def vec5_def ULAB_MAX_DIMS_def)
  have s: "shape vec5 ! 3 = 5"
    by (simp add: vec5_def)
  show ?thesis
    using diff_order_check [OF a, of 6 idle_kernels mem5]
      diff_order_check [OF a, of 5 idle_kernels mem5]
    by (simp add: a i s)
qed

text \<open>
  C7 as the specification states it has the order rejected when it is equal to the extent. On the vector
  \<open>[1,2,3,4,5]\<close> the order 5 is accepted and the result is an array without elements.
\<close>

theorem diff_order_equal_extent_counterexample:
  "numerical_diff idle_kernels mem5 (MP_NDArray vec5) 5 (- 1)
      \<noteq> Inl (ValueError ''differentiation order out of range'')
   \<and> result_elems (numerical_diff idle_kernels mem5 (MP_NDArray vec5) 5 (- 1)) = Some []"
  by (simp add: result_elems_def numerical_diff_def axis_check_def int8_t_def axis_index_def
      uint8_t_def vec5_def mem5_def ULAB_MAX_DIMS_def Let_def ndarray_new_dense_ndarray_def
      numerical_reduce_axes_def idle_kernels_def ndarray_elems_def traverse_def upt_rec)

section \<open>diff: the finite difference\<close>













section \<open>flip: views and the double flip\<close>

text \<open>
  The single-axis case returns the source descriptor with one stride negated and the data
  pointer moved; the flattened case returns a fresh vector holding the elements in reverse
  traversal order.
\<close>

lemma flip_axis_view:
  assumes "axis_check nd a = Inr ax0"
  shows "numerical_flip m (MP_NDArray nd) (MP_Int a) =
     Inr (MP_NDArray (nd\<lparr>strides := (strides nd)
              [axis_index nd ax0 := - (strides nd ! axis_index nd ax0)],
            array := array nd + (int (shape nd ! axis_index nd ax0) - 1)
                       * strides nd ! axis_index nd ax0\<rparr>), m)"
  by (simp add: numerical_flip_def assms Let_def ndarray_new_view_def)

lemma flip_none_elems:
  assumes "length (shape nd) = ULAB_MAX_DIMS" and "len nd = prod_list (shape nd)"
  shows "\<exists>r m'. numerical_flip m (MP_NDArray nd) MP_None = Inr (MP_NDArray r, m')
     \<and> ndarray_elems m' r = rev (ndarray_elems m nd)
     \<and> length (shape r) = ULAB_MAX_DIMS \<and> len r = prod_list (shape r)"
proof -
  define E where "E = ndarray_elems m nd"
  define isz where "isz = itemsize_of (dtype nd)"
  have n: "length E = len nd"
    using assms by (simp add: E_def ndarray_elems_length)
  have pos: "0 < int isz"
    by (simp add: isz_def itemsize_of_pos)
  define r where "r = \<lparr>dense = 1, dtype = dtype nd, itemsize = isz, boolean = 0, ndim = 1,
       len = len nd, shape = [1, 1, 1, len nd],
       strides = [int isz * int (len nd), int isz * int (len nd), int isz * int (len nd), - int isz],
       array = brk m + (int (len nd) - 1) * int isz\<rparr>"
  define m' where "m' = m\<lparr>brk := brk m + int (len nd * isz),
       mem := write_seq (mem m) (brk m) (int isz) E\<rparr>"
  have same: "ndarray_elems (m\<lparr>brk := b\<rparr>) nd = ndarray_elems m nd" for b
    by (simp add: ndarray_elems_def traverse_def)
  have res: "numerical_flip m (MP_NDArray nd) MP_None = Inr (MP_NDArray r, m')"
    by (simp add: numerical_flip_def new_linear_array_eq ndarray_copy_array_def Let_def
        ULAB_MAX_DIMS_def r_def m'_def E_def isz_def same)
  have addr: "brk m + (int (len nd) - 1) * int isz - int l * int isz
      = brk m + int (len nd - 1 - l) * int isz" if "l < len nd" for l
    using that by (simp add: algebra_simps of_nat_diff)
  have shp: "shape r = [1, 1, 1, len nd]"
    by (simp add: r_def)
  have "ndarray_elems m' r
      = map (\<lambda>l. mem m' (array r + int l * strides r ! 3)) [0..<len nd]"
    by (rule ndarray_elems_vector [OF shp])
  also have "\<dots> = map (\<lambda>l. mem m' (brk m + int (len nd - 1 - l) * int isz)) [0..<len nd]"
    by (rule map_cong) (simp_all add: r_def addr)
  also have "\<dots> = rev (map (\<lambda>i. mem m' (brk m + int i * int isz)) [0..<len nd])"
    by (simp add: rev_map_upt)
  also have "map (\<lambda>i. mem m' (brk m + int i * int isz)) [0..<len nd] = E"
    using write_seq_read_back [OF pos, of "mem m" "brk m" E] n by (simp add: m'_def)
  finally have "ndarray_elems m' r = rev (ndarray_elems m nd)"
    by (simp add: E_def)
  moreover have "length (shape r) = ULAB_MAX_DIMS" "len r = prod_list (shape r)"
    by (simp_all add: r_def ULAB_MAX_DIMS_def)
  ultimately show ?thesis
    using res by blast
qed

text \<open>
  C9. For an array of rank 1 to 4 whose \<open>len\<close> is the product of its shape, and an axis in
  \<open>[-ndim, ndim)\<close>: \<^verbatim>\<open>flip\<close> along the axis returns, in the unchanged memory, the source's
  descriptor with the stride of the physical slot \<open>ULAB_MAX_DIMS - ndim + (a mod ndim)\<close>
  negated and the data pointer advanced by \<open>(extent - 1) * stride\<close> of that slot, the last
  position along the axis; flipping the result along the same axis gives back the source
  descriptor, hence the same elements. With \<open>axis = None\<close>, \<^verbatim>\<open>flip\<close> returns the elements in
  reverse traversal order, and flipping that result again returns them in the order of the
  source.
\<close>

theorem flip_self_inverse:
  assumes "length (shape nd) = ULAB_MAX_DIMS" and "length (strides nd) = ULAB_MAX_DIMS"
    and "1 \<le> ndim nd" and "ndim nd \<le> ULAB_MAX_DIMS" and "len nd = prod_list (shape nd)"
    and "- int (ndim nd) \<le> a" and "a < int (ndim nd)"
  shows "numerical_flip m (MP_NDArray nd) (MP_Int a) =
       Inr (MP_NDArray (nd\<lparr>strides := (strides nd)
                [axis_index nd (a mod int (ndim nd))
                   := - (strides nd ! axis_index nd (a mod int (ndim nd)))],
              array := array nd + (int (shape nd ! axis_index nd (a mod int (ndim nd))) - 1)
                         * strides nd ! axis_index nd (a mod int (ndim nd))\<rparr>), m)
     \<and> axis_index nd (a mod int (ndim nd)) = ULAB_MAX_DIMS - ndim nd + nat (a mod int (ndim nd))
     \<and> flip_twice m nd (MP_Int a) = Inr (MP_NDArray nd, m)
     \<and> result_elems (flip_twice m nd (MP_Int a)) = Some (ndarray_elems m nd)
     \<and> result_elems (numerical_flip m (MP_NDArray nd) MP_None) = Some (rev (ndarray_elems m nd))
     \<and> result_elems (flip_twice m nd MP_None) = Some (ndarray_elems m nd)"
proof -
  define ax0 where "ax0 = a mod int (ndim nd)"
  define ax where "ax = axis_index nd ax0"
  define v where "v = nd\<lparr>strides := (strides nd)[ax := - (strides nd ! ax)],
      array := array nd + (int (shape nd ! ax) - 1) * strides nd ! ax\<rparr>"
  have small: "- 128 \<le> a" "a \<le> 127"
    using assms(3,4,6,7) by (simp_all add: ULAB_MAX_DIMS_def)
  have chk: "axis_check nd a = Inr ax0"
    using axis_check_eq [OF assms(3,4) small] assms(6,7) by (simp add: ax0_def)
  have pos: "0 < int (ndim nd)"
    using assms(3) by simp
  have idx: "ax = ULAB_MAX_DIMS - ndim nd + nat ax0"
    unfolding ax_def ax0_def using assms(4) pos by (intro axis_index_eq) simp_all
  have "nat ax0 < ndim nd"
    using pos by (simp add: ax0_def nat_less_iff)
  with idx assms(3,4) have lt: "ax < length (strides nd)"
    by (simp add: assms(2))
  have one: "numerical_flip m (MP_NDArray nd) (MP_Int a) = Inr (MP_NDArray v, m)"
    by (simp add: flip_axis_view [OF chk] v_def ax_def)
  have "axis_check v a = axis_check nd a"
    by (simp add: axis_check_def v_def Let_def)
  with chk have chk': "axis_check v a = Inr ax0"
    by simp
  have ax': "axis_index v ax0 = ax"
    by (simp add: axis_index_def ax_def v_def)
  have undo: "v\<lparr>strides := (strides v)[ax := - (strides v ! ax)],
      array := array v + (int (shape v ! ax) - 1) * strides v ! ax\<rparr> = nd"
    using lt by (simp add: v_def algebra_simps)
  have two: "numerical_flip m (MP_NDArray v) (MP_Int a) = Inr (MP_NDArray nd, m)"
    by (simp add: flip_axis_view [OF chk'] ax' undo)
  have twice: "flip_twice m nd (MP_Int a) = Inr (MP_NDArray nd, m)"
    by (simp add: flip_twice_def one two)
  obtain r m' where f1: "numerical_flip m (MP_NDArray nd) MP_None = Inr (MP_NDArray r, m')"
      and e1: "ndarray_elems m' r = rev (ndarray_elems m nd)"
      and w1: "length (shape r) = ULAB_MAX_DIMS" "len r = prod_list (shape r)"
    using flip_none_elems [OF assms(1,5), of m] by blast
  obtain r2 m2 where f2: "numerical_flip m' (MP_NDArray r) MP_None = Inr (MP_NDArray r2, m2)"
      and e2: "ndarray_elems m2 r2 = rev (ndarray_elems m' r)"
    using flip_none_elems [OF w1, of m'] by blast
  have flat: "result_elems (flip_twice m nd MP_None) = Some (ndarray_elems m nd)"
    by (simp add: flip_twice_def result_elems_def f1 f2 e1 e2)
  show ?thesis
    using one idx twice flat
    by (simp add: v_def ax_def ax0_def result_elems_def f1 e1)
qed

theorem flip_self_inverse_witness:
  "flip_twice mem6 mat23 (MP_Int 1) = Inr (MP_NDArray mat23, mem6)
   \<and> result_elems (numerical_flip mem6 (MP_NDArray mat23) (MP_Int 1)) = Some [3, 2, 1, 6, 5, 4]
   \<and> result_elems (numerical_flip mem6 (MP_NDArray mat23) MP_None) = Some [6, 5, 4, 3, 2, 1]
   \<and> result_elems (flip_twice mem6 mat23 MP_None) = Some [1, 2, 3, 4, 5, 6]"
proof -
  have e: "ndarray_elems mem6 mat23 = [1, 2, 3, 4, 5, 6]"
    by (simp add: ndarray_elems_def traverse_def element_address_def mat23_def mem6_def upt_rec)
  have i: "axis_index mat23 (1 mod int (ndim mat23)) = 3"
    by (simp add: axis_index_def uint8_t_def mat23_def ULAB_MAX_DIMS_def)
  have "length (shape mat23) = ULAB_MAX_DIMS" "length (strides mat23) = ULAB_MAX_DIMS"
    "1 \<le> ndim mat23" "ndim mat23 \<le> ULAB_MAX_DIMS" "len mat23 = prod_list (shape mat23)"
    "- int (ndim mat23) \<le> 1" "1 < int (ndim mat23)"
    by (simp_all add: mat23_def ULAB_MAX_DIMS_def)
  from flip_self_inverse [OF this, of mem6] show ?thesis
    unfolding i e
    by (simp add: result_elems_def ndarray_elems_def traverse_def element_address_def mat23_def mem6_def upt_rec)
qed

section \<open>roll: the examples\<close>

text \<open>
  C4. The specification states that \<^verbatim>\<open>roll([1,2,3,4,5], 2)\<close> is \<open>[4,5,1,2,3]\<close> and
  \<^verbatim>\<open>roll([1,2,3,4,5], -1)\<close> is \<open>[2,3,4,5,1]\<close>. In the flattened case the write cursor
  returns to the start of the result after every element once the counter has reached 0, so
  the wrapped elements all land in the first position: the results are \<open>[5,_,1,2,3]\<close> and
  \<open>[5,_,_,_,1]\<close>, the other positions keeping what the fresh buffer held (0 here).
\<close>

theorem roll_flattened_example:
  "result_elems (numerical_roll mem5 (MP_NDArray vec5) (MP_Int 2) MP_None) = Some [5, 0, 1, 2, 3]
   \<and> result_elems (numerical_roll mem5 (MP_NDArray vec5) (MP_Int (- 1)) MP_None)
        = Some [5, 0, 0, 0, 1]"
  by (simp add: result_elems_def roll_flat_defs vec5_def mem5_def
       ndarray_elems_def traverse_def element_address_def upt_rec)

text \<open>
  Along an axis, a positive distance shifts as expected. A negative distance adds the
  offset of the cursor twice: the first elements are written past the end of the line, and
  the last positions of the line keep what the fresh buffer held.
\<close>

lemmas roll_axis_defs = numerical_roll_def ndarray_new_dense_ndarray_def ULAB_MAX_DIMS_def
  int32_t_def size_t_def do_while_def repeat_numeral roll_axis_i_def roll_axis_j_def
  roll_axis_k_def roll_axis_l_def axis_check_def int8_t_def axis_index_def uint8_t_def
  numerical_reduce_axes_def zero_shape_def zero_strides_def Let_def

lemma roll_axis_examples:
  "result_elems (numerical_roll mem5 (MP_NDArray vec5) (MP_Int 2) (MP_Int 0)) = Some [4, 5, 1, 2, 3]
   \<and> result_elems (numerical_roll mem5 (MP_NDArray vec5) (MP_Int (- 1)) (MP_Int 0))
        = Some [2, 3, 4, 5, 0]"
  by (simp add: result_elems_def roll_axis_defs vec5_def mem5_def
       ndarray_elems_def traverse_def element_address_def upt_rec)

end
